theory Spec2Isabelle
  imports Main
begin

section \<open>Data model (types/post, PostsTable state)\<close>

text \<open>
  \<^verbatim>\<open>interface PostFormData { title: string; body: string }\<close> and
  \<^verbatim>\<open>interface Post { id: number; title: string; body: string; userId: number }\<close>.
  The selector of \<^verbatim>\<open>id\<close> is called \<open>id'\<close>, since \<open>id\<close> is the identity function of HOL.
\<close>

record PostFormData =
  title :: string
  body :: string

record Post = PostFormData +
  id' :: int
  userId :: int

text \<open>
  What a rejected axios call throws, as far as the handlers inspect it: an \<^verbatim>\<open>AxiosError\<close>
  whose \<^verbatim>\<open>response\<close> is present (with its HTTP status) or absent and whose
  \<^verbatim>\<open>request\<close> is present or absent, or any other thrown value, which has neither field.
\<close>

datatype thrown =
  AxiosError "nat option" bool
| OtherError

text \<open>\<^verbatim>\<open>error instanceof AxiosError && error.response?.status === code\<close>\<close>

fun axiosStatusIs :: "thrown \<Rightarrow> nat \<Rightarrow> bool" where
  "axiosStatusIs (AxiosError (Some status) rq) code = (status = code)"
| "axiosStatusIs (AxiosError None rq) code = False"
| "axiosStatusIs OtherError code = False"

text \<open>The remote call is the environment's move: it throws, or it returns the response data.\<close>

type_synonym 'a outcome = "thrown + 'a"

datatype NotificationType = success | error | warning | info

record Notification =
  ntype :: NotificationType
  message :: string
  description :: string
  placement :: string
  duration :: nat

text \<open>
  The bodies the controller sends with its HTTP calls. The body of the POST is
  \<^verbatim>\<open>{...values, userId: 1}\<close>; its \<^verbatim>\<open>userId\<close> is the field \<open>post_userId\<close>.
\<close>

record PostBody = PostFormData +
  post_userId :: int

datatype request =
  GET
| POST PostBody
| PUT int Post
| DELETE int

text \<open>
  The values of the two fields of the form instance (\<^verbatim>\<open>Form.useForm()\<close>): a field that
  was never filled or was reset is \<^verbatim>\<open>undefined\<close>, here \<open>None\<close>.
\<close>

record FormStore =
  title_field :: "string option"
  body_field :: "string option"

text \<open>
  The component state (\<^verbatim>\<open>useState\<close> cells and the form instance), together with the two
  sinks the handlers write to: the notifications shown and the HTTP requests issued, both in
  the order of the calls.
\<close>

record state =
  posts :: "Post list"
  loading :: bool
  isModalOpen :: bool
  editingPost :: "Post option"
  form :: FormStore
  notifications :: "Notification list"
  requests :: "request list"

text \<open>The state of a freshly rendered \<^verbatim>\<open>PostsTable\<close>: the \<^verbatim>\<open>useState\<close> initialisers.\<close>

definition initialState :: "Post list \<Rightarrow> state" where
  "initialState initialPosts =
     \<lparr>posts = initialPosts, loading = False, isModalOpen = False, editingPost = None,
      form = \<lparr>title_field = None, body_field = None\<rparr>, notifications = [], requests = []\<rparr>"

section \<open>Handlers of PostsTable\<close>

definition showNotification :: "NotificationType \<Rightarrow> string \<Rightarrow> string \<Rightarrow> state \<Rightarrow> state" where
  "showNotification t m d st =
     st\<lparr>notifications := notifications st @
          [\<lparr>ntype = t, message = m, description = d, placement = ''topRight'', duration = 4\<rparr>]\<rparr>"

definition axios :: "request \<Rightarrow> state \<Rightarrow> state" where
  "axios r st = st\<lparr>requests := requests st @ [r]\<rparr>"

text \<open>Decimal rendering of a status code, as the template literal prints a number.\<close>

fun string_of_nat :: "nat \<Rightarrow> string" where
  "string_of_nat n =
     (if n < 10 then [''0123456789'' ! n]
      else string_of_nat (n div 10) @ [''0123456789'' ! (n mod 10)])"

declare string_of_nat.simps [simp del]

text \<open>The message computed by \<^verbatim>\<open>handleApiError\<close> (the \<^verbatim>\<open>switch\<close> and its two guards).\<close>

fun errorMessage :: "thrown \<Rightarrow> string" where
  "errorMessage (AxiosError (Some status) rq) =
     (if status = 404 then ''The requested resource was not found''
      else if status = 400 then ''Invalid request data''
      else if status = 500 then ''Server error occurred''
      else ''Error: '' @ string_of_nat status)"
| "errorMessage (AxiosError None True) = ''No response received from server''"
| "errorMessage (AxiosError None False) = ''An unexpected error occurred''"
| "errorMessage OtherError = ''An unexpected error occurred''"

definition handleApiError :: "thrown \<Rightarrow> string \<Rightarrow> state \<Rightarrow> state" where
  "handleApiError err ctxt st = showNotification error (''Error '' @ ctxt) (errorMessage err) st"

text \<open>\<^verbatim>\<open>if (initialError)\<close>: the prop is truthy when it is a non-empty string.\<close>

fun truthy :: "string option \<Rightarrow> bool" where
  "truthy None = False"
| "truthy (Some s) = (s \<noteq> [])"

text \<open>
  \<^verbatim>\<open>fetchPosts\<close>. The response data is \<open>None\<close> when it is missing or not an array, the
  case the guard \<^verbatim>\<open>response.data && Array.isArray(response.data)\<close> skips.
\<close>

definition fetchPosts :: "string option \<Rightarrow> Post list option outcome \<Rightarrow> state \<Rightarrow> state" where
  "fetchPosts initialError reply st =
     (let st1 = axios GET (st\<lparr>loading := True\<rparr>);
          st2 = (case reply of
                   Inr None \<Rightarrow> st1
                 | Inr (Some ps) \<Rightarrow>
                     (let st' = st1\<lparr>posts := ps\<rparr>
                      in if truthy initialError
                         then showNotification success ''Data Loaded'' ''Successfully retrieved posts'' st'
                         else st')
                 | Inl err \<Rightarrow> handleApiError err ''fetching posts'' st1)
      in st2\<lparr>loading := False\<rparr>)"

definition handleEdit :: "Post \<Rightarrow> state \<Rightarrow> state" where
  "handleEdit post st =
     st\<lparr>editingPost := Some post,
        form := \<lparr>title_field = Some (title post), body_field = Some (body post)\<rparr>,
        isModalOpen := True\<rparr>"

definition handleModalCancel :: "state \<Rightarrow> state" where
  "handleModalCancel st =
     st\<lparr>form := \<lparr>title_field = None, body_field = None\<rparr>,
        isModalOpen := False,
        editingPost := None\<rparr>"

text \<open>\<^verbatim>\<open>{...editingPost, ...values}\<close>\<close>

definition updatedPost :: "Post \<Rightarrow> PostFormData \<Rightarrow> Post" where
  "updatedPost ep vals = ep\<lparr>title := title vals, body := body vals\<rparr>"

text \<open>
  The two state updaters of \<^verbatim>\<open>handleSubmit\<close> and the one of \<^verbatim>\<open>handleDelete\<close>.
  \<^verbatim>\<open>posts\<close> is an array in every state, so the \<^verbatim>\<open>Array.isArray\<close> fallbacks are not taken.
\<close>

definition replacePost :: "Post \<Rightarrow> PostFormData \<Rightarrow> Post list \<Rightarrow> Post list" where
  "replacePost ep vals prevPosts =
     map (\<lambda>post. if id' post = id' ep then updatedPost ep vals else post) prevPosts"

definition removePost :: "int \<Rightarrow> Post list \<Rightarrow> Post list" where
  "removePost postId prevPosts = filter (\<lambda>post. id' post \<noteq> postId) prevPosts"

text \<open>
  \<^verbatim>\<open>handleSubmit\<close>: the inner \<^verbatim>\<open>try\<close> of the update branch rethrows every error but an
  \<^verbatim>\<open>AxiosError\<close> with status 500; what is thrown out of the outer \<^verbatim>\<open>try\<close> body is the
  left summand, paired with the state reached, and goes to \<^verbatim>\<open>handleApiError\<close>.
\<close>

definition submitUpdate :: "Post \<Rightarrow> PostFormData \<Rightarrow> Post outcome \<Rightarrow> state \<Rightarrow> (thrown \<times> state) + state" where
  "submitUpdate ep vals reply st =
     (let st1 = axios (PUT (id' ep)
                   \<lparr>title = title vals, body = body vals, id' = id' ep, userId = userId ep\<rparr>) st
      in case reply of
           Inr resp \<Rightarrow>
             Inr (handleModalCancel
                   (showNotification success ''Post Updated''
                      ''Your post has been successfully updated (simulated)''
                      (st1\<lparr>posts := replacePost ep vals (posts st1)\<rparr>)))
         | Inl err \<Rightarrow>
             (if axiosStatusIs err 500
              then Inr (handleModalCancel
                     (showNotification success ''Post Updated''
                        ''Update simulated successfully (JSONPlaceholder API)''
                        (st1\<lparr>posts := replacePost ep vals (posts st1)\<rparr>)))
              else Inl (err, st1)))"

definition submitCreate :: "PostFormData \<Rightarrow> Post outcome \<Rightarrow> state \<Rightarrow> (thrown \<times> state) + state" where
  "submitCreate vals reply st =
     (let st1 = axios (POST \<lparr>title = title vals, body = body vals, post_userId = 1\<rparr>) st
      in case reply of
           Inr data \<Rightarrow>
             Inr (handleModalCancel
                   (showNotification success ''Post Created''
                      ''Your new post has been successfully created''
                      (st1\<lparr>posts := data # posts st1\<rparr>)))
         | Inl err \<Rightarrow> Inl (err, st1))"

definition handleSubmit :: "PostFormData \<Rightarrow> Post outcome \<Rightarrow> state \<Rightarrow> state" where
  "handleSubmit vals reply st =
     (let st1 = st\<lparr>loading := True\<rparr>;
          r = (case editingPost st of
                 Some ep \<Rightarrow> submitUpdate ep vals reply st1
               | None \<Rightarrow> submitCreate vals reply st1);
          st2 = (case r of
                   Inr st' \<Rightarrow> st'
                 | Inl (err, st') \<Rightarrow>
                     handleApiError err
                       (if editingPost st \<noteq> None then ''updating post'' else ''creating post'') st')
      in st2\<lparr>loading := False\<rparr>)"

text \<open>
  \<^verbatim>\<open>handleDelete\<close>: the inner \<^verbatim>\<open>catch\<close> swallows an \<^verbatim>\<open>AxiosError\<close> with status 404 or
  500 and rethrows everything else.
\<close>

definition deleteCall :: "int \<Rightarrow> unit outcome \<Rightarrow> state \<Rightarrow> (thrown \<times> state) + state" where
  "deleteCall postId reply st =
     (let st1 = axios (DELETE postId) st
      in case reply of
           Inr u \<Rightarrow> Inr st1
         | Inl err \<Rightarrow>
             (if \<not> (axiosStatusIs err 404 \<or> axiosStatusIs err 500)
              then Inl (err, st1)
              else Inr st1))"

definition handleDelete :: "int \<Rightarrow> unit outcome \<Rightarrow> state \<Rightarrow> state" where
  "handleDelete postId reply st =
     (let st1 = st\<lparr>loading := True\<rparr>;
          st2 = (case deleteCall postId reply st1 of
                   Inr st' \<Rightarrow>
                     showNotification success ''Post Deleted''
                       ''The post has been successfully deleted (simulated)''
                       (st'\<lparr>posts := removePost postId (posts st')\<rparr>)
                 | Inl (err, st') \<Rightarrow> handleApiError err ''deleting post'' st')
      in st2\<lparr>loading := False\<rparr>)"

text \<open>
  The two mount effects: the first starts \<^verbatim>\<open>fetchPosts\<close> when there is an initial error or
  no seeded post; the second shows the initial error. The second runs while the GET of the
  first is still pending, so its notification comes first.
\<close>

definition mount :: "Post list \<Rightarrow> string option \<Rightarrow> Post list option outcome \<Rightarrow> state" where
  "mount initialPosts initialError reply =
     (let st0 = initialState initialPosts;
          st1 = (case initialError of
                   Some e \<Rightarrow> if truthy initialError
                              then showNotification error ''Error Loading Data'' e st0 else st0
                 | None \<Rightarrow> st0)
      in if truthy initialError \<or> posts st0 = [] then fetchPosts initialError reply st1 else st1)"

section \<open>The form (PostForm) and the user's actions\<close>

text \<open>
  Each of the two \<^verbatim>\<open>Form.Item\<close>s carries the single rule \<^verbatim>\<open>{ required: true }\<close>
  (with its message). In the antd form this rule fails a field whose value is
  \<^verbatim>\<open>undefined\<close> or the empty string and passes every other string as it is: nothing
  trims the value, and neither item has a \<^verbatim>\<open>whitespace\<close> rule, a \<^verbatim>\<open>pattern\<close> or
  a validator of its own.
\<close>

fun required :: "string option \<Rightarrow> bool" where
  "required None = False"
| "required (Some s) = (s \<noteq> [])"

definition validateFields :: "FormStore \<Rightarrow> PostFormData option" where
  "validateFields f =
     (case (title_field f, body_field f) of
        (Some t, Some b) \<Rightarrow>
          if required (Some t) \<and> required (Some b) then Some \<lparr>title = t, body = b\<rparr> else None
      | _ \<Rightarrow> None)"

text \<open>The \<^verbatim>\<open>onFinishFailed\<close> callback that \<^verbatim>\<open>PostsTable\<close> passes to the form.\<close>

definition onFinishFailed :: "state \<Rightarrow> state" where
  "onFinishFailed st =
     showNotification warning ''Validation Error'' ''Please check the form fields and try again'' st"

text \<open>
  Pressing the submit button: the form validates its fields and calls \<^verbatim>\<open>onFinish\<close>, which
  is \<^verbatim>\<open>handleSubmit\<close>, with the values when every rule passes, and
  \<^verbatim>\<open>onFinishFailed\<close> otherwise.
\<close>

definition submitForm :: "Post outcome \<Rightarrow> state \<Rightarrow> state" where
  "submitForm reply st =
     (case validateFields (form st) of
        Some vals \<Rightarrow> handleSubmit vals reply st
      | None \<Rightarrow> onFinishFailed st)"

text \<open>
  What the user and the network can do to a mounted table: a call of \<^verbatim>\<open>fetchPosts\<close>,
  the button "Add New Post", "Edit" on a row, typing into the two inputs, the submit button,
  "Cancel", and a confirmed "Delete" on a row. The events that reach the network carry the
  outcome of the call.
\<close>

datatype event =
  Fetch "string option" "Post list option outcome"
| AddNewPost
| Edit Post
| InputTitle string
| InputBody string
| Submit "Post outcome"
| Cancel
| Delete int "unit outcome"

fun step :: "event \<Rightarrow> state \<Rightarrow> state" where
  "step (Fetch initialError reply) st = fetchPosts initialError reply st"
| "step AddNewPost st = st\<lparr>isModalOpen := True\<rparr>"
| "step (Edit post) st = handleEdit post st"
| "step (InputTitle s) st = st\<lparr>form := (form st)\<lparr>title_field := Some s\<rparr>\<rparr>"
| "step (InputBody s) st = st\<lparr>form := (form st)\<lparr>body_field := Some s\<rparr>\<rparr>"
| "step (Submit reply) st = submitForm reply st"
| "step Cancel st = handleModalCancel st"
| "step (Delete postId reply) st = handleDelete postId reply st"

fun run :: "event list \<Rightarrow> state \<Rightarrow> state" where
  "run [] st = st"
| "run (e # es) st = run es (step e st)"

section \<open>Notions used to state the properties\<close>

text \<open>
  The replies of the server that keep ids apart: a loaded collection has pairwise different
  ids, and the record returned for a create (a submit that passes validation while no post
  is being edited) has an id that no post of the collection has.
\<close>

fun fresh_reply :: "event \<Rightarrow> state \<Rightarrow> bool" where
  "fresh_reply (Fetch initialError (Inr (Some ps))) st = distinct (map id' ps)"
| "fresh_reply (Submit (Inr data)) st =
     (if editingPost st = None \<and> validateFields (form st) \<noteq> None
      then id' data \<notin> set (map id' (posts st))
      else True)"
| "fresh_reply e st = True"

fun replies_fresh :: "event list \<Rightarrow> state \<Rightarrow> bool" where
  "replies_fresh [] st = True"
| "replies_fresh (e # es) st = (fresh_reply e st \<and> replies_fresh es (step e st))"

text \<open>\<^verbatim>\<open>s.includes(w)\<close>: the text \<open>w\<close> occurs in \<open>s\<close>.\<close>

fun startsWith :: "string \<Rightarrow> string \<Rightarrow> bool" where
  "startsWith s [] = True"
| "startsWith [] (w # ws) = False"
| "startsWith (c # cs) (w # ws) = (c = w \<and> startsWith cs ws)"

fun includes_str :: "string \<Rightarrow> string \<Rightarrow> bool" where
  "includes_str [] w = (w = [])"
| "includes_str (c # cs) w = (startsWith (c # cs) w \<or> includes_str cs w)"


text \<open>Concrete posts and states for the examples.\<close>

abbreviation post7 :: Post where
  "post7 \<equiv> \<lparr>title = ''old'', body = ''old'', id' = 7, userId = 1\<rparr>"

abbreviation post8 :: Post where
  "post8 \<equiv> \<lparr>title = ''eight'', body = ''body8'', id' = 8, userId = 2\<rparr>"

abbreviation draft :: PostFormData where
  "draft \<equiv> \<lparr>title = ''new'', body = ''new2''\<rparr>"

abbreviation editing7 :: state where
  "editing7 \<equiv> handleEdit post7 (initialState [post7, post8])"

abbreviation created101 :: Post where
  "created101 \<equiv> \<lparr>title = ''T'', body = ''B'', id' = 101, userId = 1\<rparr>"

text \<open>
  What "Error: <status>" asks of the text after the colon: it is the decimal numeral of the
  status, that is a non-empty string of digits, without a leading zero unless it is "0",
  whose value is the status.
\<close>

definition isDigit :: "char \<Rightarrow> bool" where
  "isDigit c = (c \<in> set ''0123456789'')"

fun indexOf :: "char \<Rightarrow> string \<Rightarrow> nat" where
  "indexOf c [] = 0"
| "indexOf c (d # ds) = (if c = d then 0 else Suc (indexOf c ds))"

definition digitValue :: "char \<Rightarrow> nat" where
  "digitValue c = indexOf c ''0123456789''"

definition decimalValue :: "string \<Rightarrow> nat" where
  "decimalValue s = foldl (\<lambda>acc c. 10 * acc + digitValue c) 0 s"

definition decimal_numeral :: "string \<Rightarrow> nat \<Rightarrow> bool" where
  "decimal_numeral s n =
     (s \<noteq> [] \<and> list_all isDigit s \<and> (if hd s = CHR ''0'' then s = ''0'' else True)
      \<and> decimalValue s = n)"

text \<open>The state after two creates that the server both answered with id 101.\<close>

abbreviation second101 :: Post where
  "second101 \<equiv> \<lparr>title = ''T2'', body = ''B2'', id' = 101, userId = 1\<rparr>"

abbreviation twice101 :: state where
  "twice101 \<equiv> run
     [AddNewPost, InputTitle ''T'', InputBody ''B'', Submit (Inr created101),
      AddNewPost, InputTitle ''T2'', InputBody ''B2'', Submit (Inr second101)]
     (initialState [])"

section \<open>What the handlers compute\<close>

lemmas handler_defs =
  initialState_def showNotification_def axios_def handleApiError_def fetchPosts_def
  handleEdit_def handleModalCancel_def updatedPost_def replacePost_def removePost_def
  submitUpdate_def submitCreate_def handleSubmit_def deleteCall_def handleDelete_def
  validateFields_def onFinishFailed_def submitForm_def

lemma handleSubmit_update_applied:
  assumes "editingPost st = Some ep"
    and "reply = Inr resp \<or> reply = Inl (AxiosError (Some 500) rq)"
  shows "handleSubmit vals reply st =
     st\<lparr>posts := replacePost ep vals (posts st),
        loading := False, isModalOpen := False, editingPost := None,
        form := \<lparr>title_field = None, body_field = None\<rparr>,
        notifications := notifications st @
          [\<lparr>ntype = success, message = ''Post Updated'',
            description =
              (case reply of
                 Inr r \<Rightarrow> ''Your post has been successfully updated (simulated)''
               | Inl e \<Rightarrow> ''Update simulated successfully (JSONPlaceholder API)''),
            placement = ''topRight'', duration = 4\<rparr>],
        requests := requests st @ [PUT (id' ep)
          \<lparr>title = title vals, body = body vals, id' = id' ep, userId = userId ep\<rparr>]\<rparr>"
  using assms
  by (auto simp add: handleSubmit_def submitUpdate_def handleModalCancel_def
      showNotification_def axios_def)

lemma handleSubmit_update_rethrown:
  assumes "editingPost st = Some ep" and "\<not> axiosStatusIs err 500"
  shows "handleSubmit vals (Inl err) st =
     st\<lparr>loading := False,
        notifications := notifications st @
          [\<lparr>ntype = error, message = ''Error updating post'',
            description = errorMessage err, placement = ''topRight'', duration = 4\<rparr>],
        requests := requests st @ [PUT (id' ep)
          \<lparr>title = title vals, body = body vals, id' = id' ep, userId = userId ep\<rparr>]\<rparr>"
  using assms
  by (simp add: handleSubmit_def submitUpdate_def handleApiError_def showNotification_def
      axios_def)

lemma handleSubmit_create:
  assumes "editingPost st = None"
  shows "handleSubmit vals reply st =
     (case reply of
        Inr data \<Rightarrow>
          st\<lparr>posts := data # posts st,
             loading := False, isModalOpen := False, editingPost := None,
             form := \<lparr>title_field = None, body_field = None\<rparr>,
             notifications := notifications st @
               [\<lparr>ntype = success, message = ''Post Created'',
                 description = ''Your new post has been successfully created'',
                 placement = ''topRight'', duration = 4\<rparr>],
             requests := requests st @
               [POST \<lparr>title = title vals, body = body vals, post_userId = 1\<rparr>]\<rparr>
      | Inl err \<Rightarrow>
          st\<lparr>loading := False,
             notifications := notifications st @
               [\<lparr>ntype = error, message = ''Error creating post'',
                 description = errorMessage err, placement = ''topRight'', duration = 4\<rparr>],
             requests := requests st @
               [POST \<lparr>title = title vals, body = body vals, post_userId = 1\<rparr>]\<rparr>)"
  using assms
  by (simp add: handleSubmit_def submitCreate_def handleModalCancel_def handleApiError_def
      showNotification_def axios_def split: sum.splits)

lemma posts_handleSubmit:
  "posts (handleSubmit vals reply st) =
     (case editingPost st of
        Some ep \<Rightarrow>
          (case reply of
             Inr r \<Rightarrow> replacePost ep vals (posts st)
           | Inl err \<Rightarrow>
               if axiosStatusIs err 500 then replacePost ep vals (posts st) else posts st)
      | None \<Rightarrow> (case reply of Inr data \<Rightarrow> data # posts st | Inl err \<Rightarrow> posts st))"
  by (simp add: handleSubmit_def submitUpdate_def submitCreate_def handleModalCancel_def
      handleApiError_def showNotification_def axios_def Let_def
      split: sum.splits option.splits)

lemma posts_submitForm:
  "posts (submitForm reply st) =
     (case validateFields (form st) of
        Some vals \<Rightarrow> posts (handleSubmit vals reply st)
      | None \<Rightarrow> posts st)"
  by (simp add: submitForm_def onFinishFailed_def showNotification_def split: option.splits)

lemma posts_fetchPosts:
  "posts (fetchPosts initialError reply st) =
     (case reply of Inr (Some ps) \<Rightarrow> ps | _ \<Rightarrow> posts st)"
  by (simp add: fetchPosts_def handleApiError_def showNotification_def axios_def Let_def
      split: sum.splits option.splits)

lemma posts_handleDelete:
  "posts (handleDelete k reply st) = posts st
   \<or> posts (handleDelete k reply st) = removePost k (posts st)"
  by (simp add: handleDelete_def deleteCall_def handleApiError_def showNotification_def
      axios_def Let_def split: sum.splits)

lemma map_id_replacePost: "map id' (replacePost ep vals ps) = map id' ps"
  by (induction ps) (simp_all add: replacePost_def updatedPost_def)

lemma distinct_removePost: "distinct (map id' ps) \<Longrightarrow> distinct (map id' (removePost k ps))"
  by (simp add: removePost_def distinct_map_filter)

lemma step_keeps_ids_distinct:
  assumes "distinct (map id' (posts st))" and "fresh_reply e st"
  shows "distinct (map id' (posts (step e st)))"
proof (cases e)
  case (Fetch initialError reply)
  with assms show ?thesis
    by (cases reply) (auto simp add: posts_fetchPosts split: option.splits)
next
  case (Submit reply)
  with assms show ?thesis
    by (cases reply)
       (auto simp add: posts_submitForm posts_handleSubmit map_id_replacePost
          split: option.splits)
next
  case (Delete k reply)
  with assms posts_handleDelete [of k reply st] show ?thesis
    by (auto simp add: distinct_removePost)
qed (use assms in \<open>simp_all add: handleEdit_def handleModalCancel_def\<close>)

section \<open>The decimal rendering of a status\<close>

lemma below_ten: "k < 10 \<Longrightarrow> k = 0 \<or> k = 1 \<or> k = 2 \<or> k = 3 \<or> k = 4 \<or> k = 5 \<or> k = 6 \<or> k = 7 \<or> k = 8 \<or> k = (9::nat)"
  by arith

lemma digit_of_index:
  assumes "k < 10"
  shows "digitValue (''0123456789'' ! k) = k"
    and "isDigit (''0123456789'' ! k)"
    and "(''0123456789'' ! k = CHR ''0'') = (k = 0)"
  using below_ten [OF assms] by (auto simp add: isDigit_def digitValue_def)

lemma index_of_digit:
  assumes "isDigit c"
  shows "digitValue c < 10" and "''0123456789'' ! digitValue c = c"
  using assms by (auto simp add: isDigit_def digitValue_def)

lemma decimalValue_snoc: "decimalValue (xs @ [d]) = 10 * decimalValue xs + digitValue d"
  by (simp add: decimalValue_def)

lemma decimalValue_single: "decimalValue [d] = digitValue d"
  by (simp add: decimalValue_def)

lemma string_of_nat_numeral: "decimal_numeral (string_of_nat n) n"
proof (induction n rule: string_of_nat.induct)
  case (1 n)
  show ?case
  proof (cases "n < 10")
    case True
    then have "string_of_nat n = [''0123456789'' ! n]"
      by (simp add: string_of_nat.simps)
    with True show ?thesis
      by (simp add: decimal_numeral_def decimalValue_single digit_of_index)
  next
    case False
    let ?q = "string_of_nat (n div 10)"
    from False have ih: "decimal_numeral ?q (n div 10)" by (simp add: "1.IH")
    from False have eq: "string_of_nat n = ?q @ [''0123456789'' ! (n mod 10)]"
      by (subst string_of_nat.simps) simp
    from False have pos: "n div 10 \<noteq> 0" by simp
    have "hd ?q \<noteq> CHR ''0''"
    proof
      assume "hd ?q = CHR ''0''"
      with ih have "?q = ''0''" by (simp add: decimal_numeral_def)
      with ih have "n div 10 = 0"
        by (simp add: decimal_numeral_def decimalValue_def digitValue_def)
      with pos show False by simp
    qed
    with ih show ?thesis
      by (simp add: eq decimal_numeral_def decimalValue_snoc digit_of_index)
  qed
qed

lemma decimalValue_pos:
  "xs \<noteq> [] \<Longrightarrow> list_all isDigit xs \<Longrightarrow> hd xs \<noteq> CHR ''0'' \<Longrightarrow> 0 < decimalValue xs"
proof (induction xs rule: rev_induct)
  case Nil
  then show ?case by simp
next
  case (snoc d xs)
  show ?case
  proof (cases "xs = []")
    case True
    with snoc.prems have "isDigit d" "d \<noteq> CHR ''0''" by simp_all
    then have "0 < digitValue d" by (auto simp add: isDigit_def digitValue_def)
    with True show ?thesis by (simp add: decimalValue_single)
  next
    case False
    with snoc have "0 < decimalValue xs" by simp
    then show ?thesis by (simp add: decimalValue_snoc)
  qed
qed

lemma numeral_is_string_of_nat: "decimal_numeral s n \<Longrightarrow> s = string_of_nat n"
proof (induction s arbitrary: n rule: rev_induct)
  case Nil
  then show ?case by (simp add: decimal_numeral_def)
next
  case (snoc d xs)
  from snoc.prems have dig: "isDigit d" and all: "list_all isDigit xs"
    and val: "decimalValue (xs @ [d]) = n"
    by (simp_all add: decimal_numeral_def)
  show ?case
  proof (cases "xs = []")
    case True
    with val have "n = digitValue d" by (simp add: decimalValue_single)
    moreover from dig have "digitValue d < 10" and "''0123456789'' ! digitValue d = d"
      by (rule index_of_digit)+
    ultimately show ?thesis
      using True by (simp add: string_of_nat.simps [of "digitValue d"])
  next
    case False
    with snoc.prems have hd0: "hd xs \<noteq> CHR ''0''"
      by (auto simp add: decimal_numeral_def split: if_splits)
    with False all have num: "decimal_numeral xs (decimalValue xs)"
      by (simp add: decimal_numeral_def)
    from False all hd0 have pos: "0 < decimalValue xs" by (rule decimalValue_pos)
    from val have n: "n = 10 * decimalValue xs + digitValue d"
      by (simp add: decimalValue_snoc)
    from dig have lt: "digitValue d < 10" by (rule index_of_digit)
    from n lt have "n div 10 = decimalValue xs" "n mod 10 = digitValue d" by simp_all
    moreover from n pos have "\<not> n < 10" by simp
    moreover from num have "xs = string_of_nat (decimalValue xs)" by (rule snoc.IH)
    ultimately show ?thesis
      using dig by (simp add: string_of_nat.simps [of n] index_of_digit)
  qed
qed

lemma string_of_nat_iff: "(string_of_nat n = s) = decimal_numeral s n"
  using string_of_nat_numeral numeral_is_string_of_nat by auto

lemma unique_id_matches_once:
  "distinct (map id' ps) \<Longrightarrow> length (filter (\<lambda>p. id' p = k) ps) \<le> 1"
proof (induction ps)
  case Nil
  then show ?case by simp
next
  case (Cons a ps)
  show ?case
  proof (cases "id' a = k")
    case True
    with Cons.prems have "\<forall>p \<in> set ps. id' p \<noteq> k" by (auto simp add: image_iff)
    then have "filter (\<lambda>p. id' p = k) ps = []" by (simp add: filter_empty_conv)
    with True show ?thesis by simp
  next
    case False
    with Cons show ?thesis by simp
  qed
qed

section \<open>Update when the PUT fails\<close>

text \<open>
  Claim C1 as the specification states it: an update whose PUT fails with HTTP 404 is treated
  as a simulated success. The handler does not do that. With post 7 under edit and the draft
  \<open>new\<close>/\<open>new2\<close>, a PUT that fails with 404 leaves the record as it was, shows the error
  "The requested resource was not found" and leaves the dialog open on post 7.
\<close>

theorem update_404_counterexample:
  "posts (handleSubmit draft (Inl (AxiosError (Some 404) True)) editing7) = [post7, post8]
   \<and> notifications (handleSubmit draft (Inl (AxiosError (Some 404) True)) editing7) =
       [\<lparr>ntype = error, message = ''Error updating post'',
         description = ''The requested resource was not found'',
         placement = ''topRight'', duration = 4\<rparr>]
   \<and> isModalOpen (handleSubmit draft (Inl (AxiosError (Some 404) True)) editing7)
   \<and> editingPost (handleSubmit draft (Inl (AxiosError (Some 404) True)) editing7) = Some post7"
  by (simp add: handler_defs)

text \<open>
  Claim C1, amended: for every update whose PUT fails with HTTP 500 the handler applies the
  same local merge as on success (the draft is merged into every record whose id is the edit
  target's), shows the success notification "Update simulated successfully (JSONPlaceholder
  API)" and closes the edit session. A PUT that fails with HTTP 404 is a real error: the
  posts are unchanged, the error notification "The requested resource was not found" is shown
  and the edit session stays as it was.
\<close>

theorem update_500_simulated_404_real:
  assumes "editingPost st = Some ep"
  shows "posts (handleSubmit vals (Inl (AxiosError (Some 500) rq)) st) =
       posts (handleSubmit vals (Inr resp) st)
   \<and> posts (handleSubmit vals (Inl (AxiosError (Some 500) rq)) st) =
       map (\<lambda>post. if id' post = id' ep then updatedPost ep vals else post) (posts st)
   \<and> notifications (handleSubmit vals (Inl (AxiosError (Some 500) rq)) st) =
       notifications st @ [\<lparr>ntype = success, message = ''Post Updated'',
          description = ''Update simulated successfully (JSONPlaceholder API)'',
          placement = ''topRight'', duration = 4\<rparr>]
   \<and> isModalOpen (handleSubmit vals (Inl (AxiosError (Some 500) rq)) st) = False
   \<and> editingPost (handleSubmit vals (Inl (AxiosError (Some 500) rq)) st) = None
   \<and> posts (handleSubmit vals (Inl (AxiosError (Some 404) rq)) st) = posts st
   \<and> notifications (handleSubmit vals (Inl (AxiosError (Some 404) rq)) st) =
       notifications st @ [\<lparr>ntype = error, message = ''Error updating post'',
          description = ''The requested resource was not found'',
          placement = ''topRight'', duration = 4\<rparr>]
   \<and> isModalOpen (handleSubmit vals (Inl (AxiosError (Some 404) rq)) st) = isModalOpen st
   \<and> editingPost (handleSubmit vals (Inl (AxiosError (Some 404) rq)) st) = Some ep"
  using assms
  by (simp add: handleSubmit_update_applied [where rq = rq and resp = resp]
      handleSubmit_update_rethrown replacePost_def)

theorem update_500_simulated_404_real_witness:
  "editingPost editing7 = Some post7
   \<and> posts (handleSubmit draft (Inl (AxiosError (Some 500) True)) editing7) =
       [\<lparr>title = ''new'', body = ''new2'', id' = 7, userId = 1\<rparr>, post8]
   \<and> posts (handleSubmit draft (Inr post7) editing7) =
       [\<lparr>title = ''new'', body = ''new2'', id' = 7, userId = 1\<rparr>, post8]
   \<and> isModalOpen (handleSubmit draft (Inl (AxiosError (Some 500) True)) editing7) = False
   \<and> posts (handleSubmit draft (Inl (AxiosError (Some 404) True)) editing7) = [post7, post8]"
  using update_500_simulated_404_real
    [where st = editing7 and ep = post7 and vals = draft and rq = True and resp = post7]
  by (simp add: handler_defs)

section \<open>Uniqueness of ids\<close>

text \<open>
  Claim C2 as the specification states it: no sequence of operations puts two posts with the
  same id into the collection, whatever is created. The controller prepends the record the
  server returns without looking at its id: starting from the empty collection, two creates
  that are both answered with id 101 leave two posts with id 101.
\<close>

theorem create_twice_counterexample:
  "distinct (map id' (posts (initialState [])))
   \<and> map id' (posts (run
        [AddNewPost, InputTitle ''T'', InputBody ''B'', Submit (Inr created101),
         AddNewPost, InputTitle ''T2'', InputBody ''B2'',
         Submit (Inr \<lparr>title = ''T2'', body = ''B2'', id' = 101, userId = 1\<rparr>)]
        (initialState []))) = [101, 101]
   \<and> \<not> distinct (map id' (posts (run
        [AddNewPost, InputTitle ''T'', InputBody ''B'', Submit (Inr created101),
         AddNewPost, InputTitle ''T2'', InputBody ''B2'',
         Submit (Inr \<lparr>title = ''T2'', body = ''B2'', id' = 101, userId = 1\<rparr>)]
        (initialState []))))"
  by (simp add: handler_defs)

text \<open>
  Claim C2, amended: starting from a collection with unique ids, the collection never
  contains two posts with the same id after any sequence of loads, creates, updates, deletes
  and dialog actions, provided that every loaded collection has unique ids and every record
  returned for a create has an id that is not in the collection yet. Updates and deletes need
  no proviso.
\<close>

theorem ids_unique_when_replies_fresh:
  "distinct (map id' (posts st)) \<Longrightarrow> replies_fresh es st \<Longrightarrow>
   distinct (map id' (posts (run es st)))"
proof (induction es arbitrary: st)
  case Nil
  then show ?case by simp
next
  case (Cons e es)
  from Cons.prems have "distinct (map id' (posts (step e st)))"
    by (simp add: step_keeps_ids_distinct)
  with Cons show ?case by simp
qed

theorem ids_unique_when_replies_fresh_witness:
  "distinct (map id' (posts (initialState [])))
   \<and> replies_fresh
        [Fetch None (Inr (Some [post7, post8])),
         AddNewPost, InputTitle ''T'', InputBody ''B'', Submit (Inr created101),
         Edit post8, InputTitle ''new'', Submit (Inl (AxiosError (Some 500) True)),
         Delete 7 (Inr ())]
        (initialState [])
   \<and> distinct (map id' (posts (run
        [Fetch None (Inr (Some [post7, post8])),
         AddNewPost, InputTitle ''T'', InputBody ''B'', Submit (Inr created101),
         Edit post8, InputTitle ''new'', Submit (Inl (AxiosError (Some 500) True)),
         Delete 7 (Inr ())]
        (initialState []))))
   \<and> posts (run
        [Fetch None (Inr (Some [post7, post8])),
         AddNewPost, InputTitle ''T'', InputBody ''B'', Submit (Inr created101),
         Edit post8, InputTitle ''new'', Submit (Inl (AxiosError (Some 500) True)),
         Delete 7 (Inr ())]
        (initialState [])) =
       [created101, \<lparr>title = ''new'', body = ''body8'', id' = 8, userId = 2\<rparr>]"
  using ids_unique_when_replies_fresh
    [where st = "initialState []" and es =
       "[Fetch None (Inr (Some [post7, post8])),
         AddNewPost, InputTitle ''T'', InputBody ''B'', Submit (Inr created101),
         Edit post8, InputTitle ''new'', Submit (Inl (AxiosError (Some 500) True)),
         Delete 7 (Inr ())]"]
  by (simp add: handler_defs)

section \<open>Delete\<close>

text \<open>
  Claim C3: for a delete of id \<open>k\<close>, when the DELETE succeeds or fails with HTTP 404 or
  HTTP 500, the posts become the posts whose id differs from \<open>k\<close>, in their order, and the
  success notification "Post Deleted" is shown; for every other failure (no response, HTTP
  400, any other status, an error of an unrecognised shape) the posts are unchanged and an
  error notification is shown.
\<close>

theorem handleDelete_outcomes:
  "(reply = Inr u \<or> reply = Inl (AxiosError (Some 404) rq)
      \<or> reply = Inl (AxiosError (Some 500) rq) \<longrightarrow>
      posts (handleDelete k reply st) = filter (\<lambda>p. id' p \<noteq> k) (posts st)
    \<and> notifications (handleDelete k reply st) =
        notifications st @ [\<lparr>ntype = success, message = ''Post Deleted'',
          description = ''The post has been successfully deleted (simulated)'',
          placement = ''topRight'', duration = 4\<rparr>])
   \<and> (reply = Inl err \<and> (err = OtherError \<or> err = AxiosError None rq
        \<or> err = AxiosError (Some status) rq \<and> status \<noteq> 404 \<and> status \<noteq> 500) \<longrightarrow>
      posts (handleDelete k reply st) = posts st
    \<and> notifications (handleDelete k reply st) =
        notifications st @ [\<lparr>ntype = error, message = ''Error deleting post'',
          description = errorMessage err, placement = ''topRight'', duration = 4\<rparr>])"
  by (auto simp add: handleDelete_def deleteCall_def handleApiError_def showNotification_def
      axios_def removePost_def)

theorem handleDelete_outcomes_witness:
  "posts (handleDelete 7 (Inl (AxiosError (Some 404) True)) (initialState [post7, post8])) = [post8]
   \<and> map ntype (notifications
        (handleDelete 7 (Inl (AxiosError (Some 404) True)) (initialState [post7, post8]))) = [success]
   \<and> posts (handleDelete 7 (Inl (AxiosError (Some 400) True)) (initialState [post7, post8])) =
        [post7, post8]
   \<and> notifications (handleDelete 7 (Inl (AxiosError (Some 400) True)) (initialState [post7, post8])) =
        [\<lparr>ntype = error, message = ''Error deleting post'', description = ''Invalid request data'',
          placement = ''topRight'', duration = 4\<rparr>]"
  using handleDelete_outcomes
    [where reply = "Inl (AxiosError (Some 404) True)" and rq = True and k = 7
       and st = "initialState [post7, post8]"]
    handleDelete_outcomes
    [where reply = "Inl (AxiosError (Some 400) True)" and err = "AxiosError (Some 400) True"
       and rq = True and status = 400 and k = 7 and st = "initialState [post7, post8]"]
  by (simp add: initialState_def)

section \<open>The local merge of an update\<close>

text \<open>
  Claim C4 as the specification states it: an update that is applied locally replaces exactly
  the record under edit and leaves every other record untouched. The handler replaces by id.
  After two creates that were both answered with id 101 the collection holds two different
  records with id 101; editing the first of them and submitting the draft rewrites the second
  one as well.
\<close>

theorem duplicate_id_update_counterexample:
  "posts twice101 = [second101, created101]
   \<and> editingPost (handleEdit second101 twice101) = Some second101
   \<and> posts (handleSubmit draft (Inr second101) (handleEdit second101 twice101)) =
       [\<lparr>title = ''new'', body = ''new2'', id' = 101, userId = 1\<rparr>,
        \<lparr>title = ''new'', body = ''new2'', id' = 101, userId = 1\<rparr>]
   \<and> posts (handleSubmit draft (Inr second101) (handleEdit second101 twice101)) ! 1 \<noteq>
       posts (handleEdit second101 twice101) ! 1"
  by (simp add: handler_defs)

text \<open>
  Claim C4, amended: when an update is applied locally (the PUT succeeded, or failed with
  HTTP 500, the failure the handler treats as a simulated success), the collection keeps its
  length and, position by position, every record whose id is the edit target's id is replaced
  by the record with the draft's title and body and the target's id and userId, and every
  record with another id is the one that was there. When the ids of the collection are
  unique, at most one record has the target's id, so at most one record is replaced. If no
  record has the target's id the collection is unchanged, and also then the success
  notification "Post Updated" is shown and the edit session is closed: a no-op, not an error.
\<close>

theorem update_replaces_matching_record:
  assumes "editingPost st = Some ep"
    and "reply = Inr resp \<or> reply = Inl (AxiosError (Some 500) rq)"
  shows "length (posts (handleSubmit vals reply st)) = length (posts st)
   \<and> (\<forall>i < length (posts st).
        posts (handleSubmit vals reply st) ! i =
          (if id' (posts st ! i) = id' ep
           then \<lparr>title = title vals, body = body vals, id' = id' ep, userId = userId ep\<rparr>
           else posts st ! i))
   \<and> (distinct (map id' (posts st)) \<longrightarrow>
        length (filter (\<lambda>p. id' p = id' ep) (posts st)) \<le> 1)
   \<and> ((\<forall>p \<in> set (posts st). id' p \<noteq> id' ep) \<longrightarrow>
        posts (handleSubmit vals reply st) = posts st)
   \<and> notifications (handleSubmit vals reply st) =
       notifications st @ [\<lparr>ntype = success, message = ''Post Updated'',
          description =
            (case reply of
               Inr r \<Rightarrow> ''Your post has been successfully updated (simulated)''
             | Inl e \<Rightarrow> ''Update simulated successfully (JSONPlaceholder API)''),
          placement = ''topRight'', duration = 4\<rparr>]
   \<and> isModalOpen (handleSubmit vals reply st) = False
   \<and> editingPost (handleSubmit vals reply st) = None
   \<and> loading (handleSubmit vals reply st) = False"
proof -
  note applied = handleSubmit_update_applied [OF assms, of vals]
  have eq: "posts (handleSubmit vals reply st) = replacePost ep vals (posts st)"
    by (simp add: applied)
  have merged: "updatedPost ep vals =
      \<lparr>title = title vals, body = body vals, id' = id' ep, userId = userId ep\<rparr>"
    by (simp add: updatedPost_def)
  have nomatch: "(\<forall>p \<in> set (posts st). id' p \<noteq> id' ep) \<longrightarrow> replacePost ep vals (posts st) = posts st"
    by (simp add: replacePost_def map_idI)
  have posts_part: "length (posts (handleSubmit vals reply st)) = length (posts st)
   \<and> (\<forall>i < length (posts st).
        posts (handleSubmit vals reply st) ! i =
          (if id' (posts st ! i) = id' ep
           then \<lparr>title = title vals, body = body vals, id' = id' ep, userId = userId ep\<rparr>
           else posts st ! i))
   \<and> ((\<forall>p \<in> set (posts st). id' p \<noteq> id' ep) \<longrightarrow>
        posts (handleSubmit vals reply st) = posts st)"
    using nomatch by (simp add: eq replacePost_def merged)
  have session: "notifications (handleSubmit vals reply st) =
       notifications st @ [\<lparr>ntype = success, message = ''Post Updated'',
          description =
            (case reply of
               Inr r \<Rightarrow> ''Your post has been successfully updated (simulated)''
             | Inl e \<Rightarrow> ''Update simulated successfully (JSONPlaceholder API)''),
          placement = ''topRight'', duration = 4\<rparr>]
   \<and> isModalOpen (handleSubmit vals reply st) = False
   \<and> editingPost (handleSubmit vals reply st) = None
   \<and> loading (handleSubmit vals reply st) = False"
    by (simp add: applied)
  from posts_part session unique_id_matches_once [of "posts st" "id' ep"]
  show ?thesis by blast
qed

theorem update_replaces_matching_record_witness:
  "editingPost editing7 = Some post7
   \<and> distinct (map id' (posts editing7))
   \<and> posts (handleSubmit draft (Inr post7) editing7) =
       [\<lparr>title = ''new'', body = ''new2'', id' = 7, userId = 1\<rparr>, post8]
   \<and> map ntype (notifications (handleSubmit draft (Inr post7) editing7)) = [success]
   \<and> editingPost (handleEdit post7 (initialState [post8])) = Some post7
   \<and> id' post7 \<notin> set (map id' (posts (handleEdit post7 (initialState [post8]))))
   \<and> posts (handleSubmit draft (Inl (AxiosError (Some 500) True))
        (handleEdit post7 (initialState [post8]))) = [post8]
   \<and> notifications (handleSubmit draft (Inl (AxiosError (Some 500) True))
        (handleEdit post7 (initialState [post8]))) =
       [\<lparr>ntype = success, message = ''Post Updated'',
         description = ''Update simulated successfully (JSONPlaceholder API)'',
         placement = ''topRight'', duration = 4\<rparr>]
   \<and> \<not> isModalOpen (handleSubmit draft (Inl (AxiosError (Some 500) True))
        (handleEdit post7 (initialState [post8])))"
  using update_replaces_matching_record
    [where st = editing7 and ep = post7 and reply = "Inr post7" and resp = post7
       and vals = draft]
    update_replaces_matching_record
    [where st = "handleEdit post7 (initialState [post8])" and ep = post7
       and reply = "Inl (AxiosError (Some 500) True)" and rq = True and vals = draft]
  by (simp add: handler_defs)

section \<open>Create\<close>

text \<open>
  Claim C5: a create (a submit while no post is being edited) sends the draft with userId 1;
  when the POST succeeds the record the server returned becomes the first post, the earlier
  posts follow in their order, the success notification "Post Created" is shown and the edit
  session is closed; when the POST fails in any way the posts are unchanged and an error
  notification is shown.
\<close>

theorem create_prepends_or_leaves:
  assumes "editingPost st = None"
  shows "requests (handleSubmit vals reply st) =
       requests st @ [POST \<lparr>title = title vals, body = body vals, post_userId = 1\<rparr>]
   \<and> (reply = Inr data \<longrightarrow>
        posts (handleSubmit vals reply st) = data # posts st
      \<and> notifications (handleSubmit vals reply st) =
          notifications st @ [\<lparr>ntype = success, message = ''Post Created'',
            description = ''Your new post has been successfully created'',
            placement = ''topRight'', duration = 4\<rparr>]
      \<and> isModalOpen (handleSubmit vals reply st) = False
      \<and> editingPost (handleSubmit vals reply st) = None
      \<and> form (handleSubmit vals reply st) = \<lparr>title_field = None, body_field = None\<rparr>)
   \<and> (reply = Inl err \<longrightarrow>
        posts (handleSubmit vals reply st) = posts st
      \<and> notifications (handleSubmit vals reply st) =
          notifications st @ [\<lparr>ntype = error, message = ''Error creating post'',
            description = errorMessage err, placement = ''topRight'', duration = 4\<rparr>])"
  using assms by (cases reply) (simp_all add: handleSubmit_create)

theorem create_prepends_or_leaves_witness:
  "editingPost (step AddNewPost (initialState [post7, post8])) = None
   \<and> requests (handleSubmit \<lparr>title = ''T'', body = ''B''\<rparr> (Inr created101)
        (step AddNewPost (initialState [post7, post8]))) =
       [POST \<lparr>title = ''T'', body = ''B'', post_userId = 1\<rparr>]
   \<and> posts (handleSubmit \<lparr>title = ''T'', body = ''B''\<rparr> (Inr created101)
        (step AddNewPost (initialState [post7, post8]))) = [created101, post7, post8]
   \<and> isModalOpen (handleSubmit \<lparr>title = ''T'', body = ''B''\<rparr> (Inr created101)
        (step AddNewPost (initialState [post7, post8]))) = False
   \<and> posts (handleSubmit \<lparr>title = ''T'', body = ''B''\<rparr> (Inl (AxiosError None True))
        (step AddNewPost (initialState [post7, post8]))) = [post7, post8]
   \<and> notifications (handleSubmit \<lparr>title = ''T'', body = ''B''\<rparr> (Inl (AxiosError None True))
        (step AddNewPost (initialState [post7, post8]))) =
       [\<lparr>ntype = error, message = ''Error creating post'',
         description = ''No response received from server'',
         placement = ''topRight'', duration = 4\<rparr>]"
  using create_prepends_or_leaves
    [where st = "step AddNewPost (initialState [post7, post8])"
       and vals = "\<lparr>title = ''T'', body = ''B''\<rparr>" and reply = "Inr created101"
       and data = created101]
    create_prepends_or_leaves
    [where st = "step AddNewPost (initialState [post7, post8])"
       and vals = "\<lparr>title = ''T'', body = ''B''\<rparr>" and reply = "Inl (AxiosError None True)"
       and err = "AxiosError None True"]
  by (simp add: initialState_def)

section \<open>Error messages\<close>

text \<open>
  Claim C6: the error handler shows an error notification whose text is fixed by the shape of
  the error: a response with status 404 gives "The requested resource was not found", 400
  gives "Invalid request data", 500 gives "Server error occurred", any other status gives
  "Error: " followed by the decimal numeral of the status, and by no other text; a request
  without a response gives "No response received from server"; every other error gives "An
  unexpected error occurred".
\<close>

theorem handleApiError_message:
  "notifications (handleApiError err ctxt st) =
     notifications st @ [\<lparr>ntype = error, message = ''Error '' @ ctxt,
        description = errorMessage err, placement = ''topRight'', duration = 4\<rparr>]
   \<and> errorMessage (AxiosError (Some 404) rq) = ''The requested resource was not found''
   \<and> errorMessage (AxiosError (Some 400) rq) = ''Invalid request data''
   \<and> errorMessage (AxiosError (Some 500) rq) = ''Server error occurred''
   \<and> (status \<noteq> 404 \<and> status \<noteq> 400 \<and> status \<noteq> 500 \<longrightarrow>
        (errorMessage (AxiosError (Some status) rq) = ''Error: '' @ s) = decimal_numeral s status)
   \<and> errorMessage (AxiosError None True) = ''No response received from server''
   \<and> errorMessage (AxiosError None False) = ''An unexpected error occurred''
   \<and> errorMessage OtherError = ''An unexpected error occurred''"
  by (simp add: handleApiError_def showNotification_def string_of_nat_iff)

theorem handleApiError_message_witness:
  "(401::nat) \<noteq> 404 \<and> (401::nat) \<noteq> 400 \<and> (401::nat) \<noteq> 500
   \<and> decimal_numeral ''401'' 401
   \<and> notifications (handleApiError (AxiosError (Some 401) True) ''creating post''
        (initialState [])) =
       [\<lparr>ntype = error, message = ''Error creating post'', description = ''Error: 401'',
         placement = ''topRight'', duration = 4\<rparr>]
   \<and> errorMessage (AxiosError (Some 503) False) = ''Error: 503''
   \<and> errorMessage (AxiosError (Some 0) False) = ''Error: 0''
   \<and> errorMessage (AxiosError (Some 1000) False) = ''Error: 1000''"
  using handleApiError_message
    [where err = "AxiosError (Some 401) True" and ctxt = "''creating post''"
       and st = "initialState []" and status = 401 and rq = True and s = "''401''"]
    handleApiError_message [where status = 503 and rq = False and s = "''503''"]
    handleApiError_message [where status = 0 and rq = False and s = "''0''"]
    handleApiError_message [where status = 1000 and rq = False and s = "''1000''"]
  by (simp add: initialState_def decimal_numeral_def decimalValue_def isDigit_def
      digitValue_def)

section \<open>Validation\<close>




section \<open>Deleting an id that is not there\<close>

text \<open>
  Claim C8: when no post has id \<open>k\<close>, a delete of \<open>k\<close> leaves the posts unchanged in
  content and length, whatever the outcome of the DELETE.
\<close>

theorem delete_absent_id_unchanged:
  assumes "\<forall>p \<in> set (posts st). id' p \<noteq> k"
  shows "posts (handleDelete k reply st) = posts st
   \<and> length (posts (handleDelete k reply st)) = length (posts st)
   \<and> filter (\<lambda>post. id' post \<noteq> k) (posts st) = posts st"
proof -
  from assms have "removePost k (posts st) = posts st"
    by (simp add: removePost_def)
  then show ?thesis
    by (cases reply)
       (simp_all add: handleDelete_def deleteCall_def handleApiError_def showNotification_def
          axios_def Let_def removePost_def)
qed

theorem delete_absent_id_unchanged_witness:
  "9 \<notin> set (map id' (posts (initialState [post7, post8])))
   \<and> posts (handleDelete 9 (Inr ()) (initialState [post7, post8])) = [post7, post8]
   \<and> length (posts (handleDelete 9 (Inr ()) (initialState [post7, post8]))) = 2"
  using delete_absent_id_unchanged
    [where st = "initialState [post7, post8]" and k = 9 and reply = "Inr ()"]
  by (simp add: initialState_def)

section \<open>Load failure\<close>

text \<open>
  Claim C9: when the GET of the load fails with HTTP 500, the posts are what they were before
  (none after a mount without seed), the error notification "Server error occurred" is shown
  and the busy flag is false afterwards.
\<close>

theorem fetchPosts_500:
  "posts (fetchPosts initialError (Inl (AxiosError (Some 500) rq)) st) = posts st
   \<and> notifications (fetchPosts initialError (Inl (AxiosError (Some 500) rq)) st) =
       notifications st @ [\<lparr>ntype = error, message = ''Error fetching posts'',
          description = ''Server error occurred'', placement = ''topRight'', duration = 4\<rparr>]
   \<and> loading (fetchPosts initialError (Inl (AxiosError (Some 500) rq)) st) = False
   \<and> posts (mount [] None (Inl (AxiosError (Some 500) rq))) = []
   \<and> notifications (mount [] None (Inl (AxiosError (Some 500) rq))) =
       [\<lparr>ntype = error, message = ''Error fetching posts'',
         description = ''Server error occurred'', placement = ''topRight'', duration = 4\<rparr>]
   \<and> loading (mount [] None (Inl (AxiosError (Some 500) rq))) = False"
  by (simp add: fetchPosts_def handleApiError_def showNotification_def axios_def mount_def
      initialState_def)

theorem fetchPosts_500_witness:
  "posts (fetchPosts None (Inl (AxiosError (Some 500) True)) (initialState [post7])) = [post7]
   \<and> map description (notifications
        (fetchPosts None (Inl (AxiosError (Some 500) True)) (initialState [post7]))) =
       [''Server error occurred'']
   \<and> map ntype (notifications
        (fetchPosts None (Inl (AxiosError (Some 500) True)) (initialState [post7]))) = [error]
   \<and> \<not> loading (fetchPosts None (Inl (AxiosError (Some 500) True)) (initialState [post7]))"
  using fetchPosts_500
    [where initialError = None and rq = True and st = "initialState [post7]"]
  by (simp add: initialState_def)

section \<open>Wording of the success notifications\<close>

text \<open>
  Claim C10 as stated: every update that is applied locally is announced with "Your post has
  been successfully updated (simulated)", with no other wording for a simulated success. The
  update that is applied after a PUT failed with HTTP 500 is announced with another text.
\<close>

theorem update_wordings_differ_counterexample:
  "posts (handleSubmit draft (Inl (AxiosError (Some 500) True)) editing7) =
     posts (handleSubmit draft (Inr post7) editing7)
   \<and> map description (notifications
        (handleSubmit draft (Inl (AxiosError (Some 500) True)) editing7)) =
       [''Update simulated successfully (JSONPlaceholder API)'']
   \<and> map description (notifications (handleSubmit draft (Inr post7) editing7)) =
       [''Your post has been successfully updated (simulated)'']
   \<and> map description (notifications
        (handleSubmit draft (Inl (AxiosError (Some 500) True)) editing7)) \<noteq>
     map description (notifications (handleSubmit draft (Inr post7) editing7))"
  by (simp add: handler_defs)

text \<open>
  Claim C10, amended: whenever an update or a delete applies its local mutation, the
  description of the success notification contains the word "simulated". An update whose PUT
  succeeded is announced with "Your post has been successfully updated (simulated)", an
  update applied after a PUT failed with HTTP 500 with "Update simulated successfully
  (JSONPlaceholder API)", and every delete that removes the record (DELETE succeeded, or
  failed with 404 or 500) with "The post has been successfully deleted (simulated)", whether
  or not a post is under edit: delete has one wording for a true and a simulated success,
  update has two.
\<close>

theorem success_wordings:
  "(editingPost st = Some ep \<longrightarrow>
      notifications (handleSubmit vals (Inr resp) st) =
        notifications st @ [\<lparr>ntype = success, message = ''Post Updated'',
          description = ''Your post has been successfully updated (simulated)'',
          placement = ''topRight'', duration = 4\<rparr>]
    \<and> notifications (handleSubmit vals (Inl (AxiosError (Some 500) rq)) st) =
        notifications st @ [\<lparr>ntype = success, message = ''Post Updated'',
          description = ''Update simulated successfully (JSONPlaceholder API)'',
          placement = ''topRight'', duration = 4\<rparr>])
   \<and> (reply = Inr u \<or> reply = Inl (AxiosError (Some 404) rq)
        \<or> reply = Inl (AxiosError (Some 500) rq) \<longrightarrow>
       notifications (handleDelete k reply st) =
        notifications st @ [\<lparr>ntype = success, message = ''Post Deleted'',
          description = ''The post has been successfully deleted (simulated)'',
          placement = ''topRight'', duration = 4\<rparr>])
   \<and> includes_str ''Your post has been successfully updated (simulated)'' ''simulated''
   \<and> includes_str ''Update simulated successfully (JSONPlaceholder API)'' ''simulated''
   \<and> includes_str ''The post has been successfully deleted (simulated)'' ''simulated''"
proof -
  have "includes_str ''Your post has been successfully updated (simulated)'' ''simulated''"
    and "includes_str ''Update simulated successfully (JSONPlaceholder API)'' ''simulated''"
    and "includes_str ''The post has been successfully deleted (simulated)'' ''simulated''"
    by simp_all
  moreover have "reply = Inr u \<or> reply = Inl (AxiosError (Some 404) rq)
      \<or> reply = Inl (AxiosError (Some 500) rq) \<longrightarrow>
       notifications (handleDelete k reply st) =
        notifications st @ [\<lparr>ntype = success, message = ''Post Deleted'',
          description = ''The post has been successfully deleted (simulated)'',
          placement = ''topRight'', duration = 4\<rparr>]"
    by (auto simp add: handleDelete_def deleteCall_def showNotification_def axios_def)
  moreover have "editingPost st = Some ep \<longrightarrow>
      notifications (handleSubmit vals (Inr resp) st) =
        notifications st @ [\<lparr>ntype = success, message = ''Post Updated'',
          description = ''Your post has been successfully updated (simulated)'',
          placement = ''topRight'', duration = 4\<rparr>]
    \<and> notifications (handleSubmit vals (Inl (AxiosError (Some 500) rq)) st) =
        notifications st @ [\<lparr>ntype = success, message = ''Post Updated'',
          description = ''Update simulated successfully (JSONPlaceholder API)'',
          placement = ''topRight'', duration = 4\<rparr>]"
    by (simp add: handleSubmit_update_applied [where rq = rq and resp = resp])
  ultimately show ?thesis by blast
qed

theorem success_wordings_witness:
  "editingPost editing7 = Some post7
   \<and> map description (notifications (handleSubmit draft (Inr post7) editing7)) =
       [''Your post has been successfully updated (simulated)'']
   \<and> map description (notifications
        (handleSubmit draft (Inl (AxiosError (Some 500) True)) editing7)) =
       [''Update simulated successfully (JSONPlaceholder API)'']
   \<and> editingPost (initialState [post7, post8]) = None
   \<and> notifications (handleDelete 7 (Inl (AxiosError (Some 404) True))
        (initialState [post7, post8])) =
       [\<lparr>ntype = success, message = ''Post Deleted'',
         description = ''The post has been successfully deleted (simulated)'',
         placement = ''topRight'', duration = 4\<rparr>]"
  using success_wordings
    [where st = editing7 and ep = post7 and vals = draft and resp = post7 and rq = True]
    success_wordings
    [where st = "initialState [post7, post8]" and rq = True
       and reply = "Inl (AxiosError (Some 404) True)" and k = 7]
  by (simp add: handler_defs)

end
